theory Spec2Isabelle
  imports Complex_Main "HOL-Library.Log_Nat"
begin

section \<open>Numbers and strings of the host language\<close>

text \<open>
  The reducers are TypeScript. A \<open>number\<close> that the slices store (the counter's value, a
  timestamp, a list length) is modelled as a mathematical integer: on the safe integers
  (absolute value below \<open>2^53\<close>) the additions of the code are exact and \<open>String(n)\<close> is the
  decimal numeral, which is what \<open>number_toString\<close> prints. (The amount of
  \<open>incrementByAmount\<close> is what \<open>parseInt\<close> returned in the counter component.) A string is
  a list of characters; a character is a code point below 256.
\<close>

definition digit_char :: "nat \<Rightarrow> char" where
  "digit_char d = ''0123456789'' ! d"

function nat_toString :: "nat \<Rightarrow> string" where
  "nat_toString n =
     (if n < 10 then [digit_char n] else nat_toString (n div 10) @ [digit_char (n mod 10)])"
  by pat_completeness auto
termination
  by (relation "measure (\<lambda>n. n)") auto

definition number_toString :: "int \<Rightarrow> string" where
  "number_toString i =
     (if i < 0 then CHR ''-'' # nat_toString (nat (- i)) else nat_toString (nat i))"

text \<open>\<open>s.substr(start, len)\<close> for \<open>start\<close>, \<open>len\<close> that are not negative.\<close>

definition substr :: "nat \<Rightarrow> nat \<Rightarrow> string \<Rightarrow> string" where
  "substr start len s = take len (drop start s)"

section \<open>Actions\<close>

text \<open>The action type constants of \<open>counterSlice.ts\<close> and of the todo slice.\<close>

definition INCREMENT :: string where "INCREMENT = ''counter/increment''"
definition DECREMENT :: string where "DECREMENT = ''counter/decrement''"
definition INCREMENT_BY_AMOUNT :: string where "INCREMENT_BY_AMOUNT = ''counter/incrementByAmount''"
definition RESET :: string where "RESET = ''counter/reset''"

definition ADD_TODO :: string where "ADD_TODO = ''todos/addTodo''"
definition TOGGLE_TODO :: string where "TOGGLE_TODO = ''todos/toggleTodo''"
definition DELETE_TODO :: string where "DELETE_TODO = ''todos/deleteTodo''"
definition EDIT_TODO :: string where "EDIT_TODO = ''todos/editTodo''"
definition CLEAR_COMPLETED :: string where "CLEAR_COMPLETED = ''todos/clearCompleted''"
definition SET_FILTER :: string where "SET_FILTER = ''todos/setFilter''"
definition SET_SEARCH_TERM :: string where "SET_SEARCH_TERM = ''todos/setSearchTerm''"
definition MARK_ALL_COMPLETE :: string where "MARK_ALL_COMPLETE = ''todos/markAllComplete''"

definition counterTypes :: "string list" where
  "counterTypes = [INCREMENT, DECREMENT, INCREMENT_BY_AMOUNT, RESET]"

definition todoTypes :: "string list" where
  "todoTypes = [ADD_TODO, TOGGLE_TODO, DELETE_TODO, EDIT_TODO, CLEAR_COMPLETED,
                SET_FILTER, SET_SEARCH_TERM, MARK_ALL_COMPLETE]"

text \<open>
  The store hands every dispatched action to both reducers, so a reducer also meets
  actions of neither union (the other slice's, and the store's own, such as
  \<open>@@redux/INIT\<close>). The type tag of such an action is any string that is none of the
  twelve constants.
\<close>

typedef otherType = "{t :: string. t \<notin> set (counterTypes @ todoTypes)}"
  morphisms otherType_string OtherType
proof
  show "''@@redux/INIT'' \<in> {t :: string. t \<notin> set (counterTypes @ todoTypes)}"
    by (simp add: counterTypes_def todoTypes_def INCREMENT_def DECREMENT_def
        INCREMENT_BY_AMOUNT_def RESET_def ADD_TODO_def TOGGLE_TODO_def DELETE_TODO_def
        EDIT_TODO_def CLEAR_COMPLETED_def SET_FILTER_def SET_SEARCH_TERM_def
        MARK_ALL_COMPLETE_def)
qed

text \<open>
  \<open>CounterAction\<close> and \<open>TodoAction\<close> are unions of interfaces discriminated by \<open>type\<close>;
  each interface is a constructor that carries its payload. The payload of
  \<open>SetFilterAction\<close> is a string: the union of three literals is erased at run time and
  the reducer stores what it is given.
\<close>

datatype action =
    IncrementAction
  | DecrementAction
  | IncrementByAmountAction int
  | ResetAction
  | AddTodoAction string
  | ToggleTodoAction string
  | DeleteTodoAction string
  | EditTodoAction string string
  | ClearCompletedAction
  | SetFilterAction string
  | SetSearchTermAction string
  | MarkAllCompleteAction
  | OtherAction otherType

fun action_type :: "action \<Rightarrow> string" where
  "action_type IncrementAction = INCREMENT"
| "action_type DecrementAction = DECREMENT"
| "action_type (IncrementByAmountAction n) = INCREMENT_BY_AMOUNT"
| "action_type ResetAction = RESET"
| "action_type (AddTodoAction txt) = ADD_TODO"
| "action_type (ToggleTodoAction i) = TOGGLE_TODO"
| "action_type (DeleteTodoAction i) = DELETE_TODO"
| "action_type (EditTodoAction i txt) = EDIT_TODO"
| "action_type ClearCompletedAction = CLEAR_COMPLETED"
| "action_type (SetFilterAction f) = SET_FILTER"
| "action_type (SetSearchTermAction s) = SET_SEARCH_TERM"
| "action_type MarkAllCompleteAction = MARK_ALL_COMPLETE"
| "action_type (OtherAction t) = otherType_string t"

text \<open>The action creators.\<close>

definition increment :: action where "increment = IncrementAction"

definition addTodo :: "string \<Rightarrow> action" where "addTodo txt = AddTodoAction txt"
definition toggleTodo :: "string \<Rightarrow> action" where "toggleTodo i = ToggleTodoAction i"
definition deleteTodo :: "string \<Rightarrow> action" where "deleteTodo i = DeleteTodoAction i"
definition editTodo :: "string \<Rightarrow> string \<Rightarrow> action" where
  "editTodo i txt = EditTodoAction i txt"
definition clearCompleted :: action where "clearCompleted = ClearCompletedAction"
definition setFilter :: "string \<Rightarrow> action" where "setFilter f = SetFilterAction f"
definition setSearchTerm :: "string \<Rightarrow> action" where
  "setSearchTerm s = SetSearchTermAction s"
definition markAllComplete :: action where "markAllComplete = MarkAllCompleteAction"

section \<open>The counter slice\<close>

record CounterState =
  value' :: int
  lastAction :: string

definition initialState_counter :: CounterState where
  "initialState_counter = \<lparr>value' = 0, lastAction = ''none''\<rparr>"

text \<open>
  \<open>counterReducer(state = initialState, action)\<close>: the state is \<open>None\<close> when the caller
  passes \<open>undefined\<close>, and the default parameter then takes its place.
\<close>

definition counterReducer :: "CounterState option \<Rightarrow> action \<Rightarrow> CounterState" where
  "counterReducer st action =
     (let state = (case st of None \<Rightarrow> initialState_counter | Some s \<Rightarrow> s) in
      case action of
        IncrementAction \<Rightarrow>
          state\<lparr>value' := value' state + 1, lastAction := ''increment''\<rparr>
      | DecrementAction \<Rightarrow>
          state\<lparr>value' := value' state - 1, lastAction := ''decrement''\<rparr>
      | IncrementByAmountAction n \<Rightarrow>
          state\<lparr>value' := value' state + n,
                lastAction := ''increment by '' @ number_toString n\<rparr>
      | ResetAction \<Rightarrow>
          state\<lparr>value' := 0, lastAction := ''reset''\<rparr>
      | _ \<Rightarrow> state)"

section \<open>The todo slice\<close>

record Todo =
  id' :: string
  text' :: string
  completed :: bool
  createdAt :: int

text \<open>
  \<open>filter'\<close> is declared as one of \<open>"ALL"\<close>, \<open>"ACTIVE"\<close>, \<open>"COMPLETED"\<close>; at run time it is
  the string the last \<open>setFilter\<close> carried, and the selector has a default branch for
  every other value.
\<close>

record TodoState =
  todos :: "Todo list"
  filter' :: string
  searchTerm :: string

text \<open>
  What the environment answers while one call of the reducer runs: \<open>Date.now()\<close> inside
  \<open>generateId\<close>, \<open>Math.random().toString(36)\<close> there (a numeral in base 36 such as
  \<open>0.4fzyo82mvyr\<close>), and \<open>Date.now()\<close> for \<open>createdAt\<close>.
\<close>

record Env =
  dateNow_id :: int
  mathRandom_toString36 :: string
  dateNow_createdAt :: int

definition generateId :: "Env \<Rightarrow> string" where
  "generateId env = number_toString (dateNow_id env) @ substr 2 9 (mathRandom_toString36 env)"

text \<open>
  The three readings of \<open>Date.now()\<close> taken when the module is loaded and its
  \<open>initialState\<close> literal is evaluated.
\<close>

record LoadEnv =
  dateNow_1 :: int
  dateNow_2 :: int
  dateNow_3 :: int

definition initialState_todo :: "LoadEnv \<Rightarrow> TodoState" where
  "initialState_todo ld =
     \<lparr>todos =
        [\<lparr>id' = ''1'', text' = ''Learn Redux fundamentals'', completed = True,
          createdAt = dateNow_1 ld - 86400000\<rparr>,
         \<lparr>id' = ''2'', text' = ''Build a todo app with Redux'', completed = False,
          createdAt = dateNow_2 ld - 3600000\<rparr>,
         \<lparr>id' = ''3'', text' = ''Master React-Redux patterns'', completed = False,
          createdAt = dateNow_3 ld\<rparr>],
      filter' = ''ALL'',
      searchTerm = []\<rparr>"

text \<open>
  \<open>todoReducer(state = initialState, action)\<close>. \<open>xs.every(p)\<close> is \<open>list_all p xs\<close>,
  \<open>xs.map(f)\<close> is \<open>map f xs\<close>, \<open>xs.filter(p)\<close> is \<open>filter p xs\<close>.
\<close>

definition todoReducer :: "LoadEnv \<Rightarrow> Env \<Rightarrow> TodoState option \<Rightarrow> action \<Rightarrow> TodoState" where
  "todoReducer ld env st action =
     (let state = (case st of None \<Rightarrow> initialState_todo ld | Some s \<Rightarrow> s) in
      case action of
        AddTodoAction txt \<Rightarrow>
          state\<lparr>todos :=
            \<lparr>id' = generateId env, text' = txt, completed = False,
             createdAt = dateNow_createdAt env\<rparr> # todos state\<rparr>
      | ToggleTodoAction i \<Rightarrow>
          state\<lparr>todos :=
            map (\<lambda>todo. if id' todo = i then todo\<lparr>completed := \<not> completed todo\<rparr> else todo)
              (todos state)\<rparr>
      | DeleteTodoAction i \<Rightarrow>
          state\<lparr>todos := filter (\<lambda>todo. id' todo \<noteq> i) (todos state)\<rparr>
      | EditTodoAction i txt \<Rightarrow>
          state\<lparr>todos :=
            map (\<lambda>todo. if id' todo = i then todo\<lparr>text' := txt\<rparr> else todo) (todos state)\<rparr>
      | ClearCompletedAction \<Rightarrow>
          state\<lparr>todos := filter (\<lambda>todo. \<not> completed todo) (todos state)\<rparr>
      | SetFilterAction f \<Rightarrow>
          state\<lparr>filter' := f\<rparr>
      | SetSearchTermAction s \<Rightarrow>
          state\<lparr>searchTerm := s\<rparr>
      | MarkAllCompleteAction \<Rightarrow>
          (let allCompleted = list_all (\<lambda>todo. completed todo) (todos state) in
           state\<lparr>todos := map (\<lambda>todo. todo\<lparr>completed := \<not> allCompleted\<rparr>) (todos state)\<rparr>)
      | _ \<Rightarrow> state)"

section \<open>Selectors\<close>








text \<open>
  The arithmetic of \<open>selectTodoStats\<close> is the host's: \<open>completed / total\<close> and the product
  with 100 are IEEE 754 double-precision operations, each the exact result rounded to the
  nearest double, ties to the even significand. A double is a rational number;
  \<open>binary64 x\<close> is the double nearest to \<open>x\<close>, for magnitudes below \<open>2^1024\<close> (the quotient of
  two array lengths and its product with 100 are far below). \<open>floorLog2 x\<close> is the binary
  exponent of a positive \<open>x\<close>; significands have 53 bits, and below \<open>2^-1022\<close> the spacing
  of the subnormal numbers stays \<open>2^-1074\<close>.
\<close>

definition floorLog2 :: "rat \<Rightarrow> int" where
  "floorLog2 x =
     (if 1 \<le> x then int (floorlog 2 (nat \<lfloor>x\<rfloor>)) - 1
      else - int (floorlog 2 (nat (\<lceil>1 / x\<rceil> - 1))))"






section \<open>The reducers, by reference\<close>

text \<open>
  The reducers never write to an object they were given, so a reference is modelled by
  what it points to. What the definitions above do not show is which objects of a result
  are the caller's own and which are new. The definitions of this section follow the
  same source once more and record that: \<open>return state\<close> gives back the reference the
  reducer received (\<open>Same\<close>), an object literal, \<open>map\<close> and \<open>filter\<close> build a new object
  (\<open>Fresh\<close>), and an element of a new array is either the reference stored at index \<open>k\<close> of
  the old array (\<open>Old k\<close>) or a todo created by this call (\<open>New\<close>). The spread
  \<open>...state\<close> copies the fields, so the new state holds the old array unless \<open>todos\<close> is
  overwritten.
\<close>

datatype 'a reference = Same | Fresh 'a

datatype todoRef = Old nat | New Todo

record TodoStateObject =
  todos_ref :: "todoRef list reference"
  filter_val :: string
  searchTerm_val :: string

definition spread :: "TodoState \<Rightarrow> TodoStateObject" where
  "spread state =
     \<lparr>todos_ref = Same, filter_val = filter' state, searchTerm_val = searchTerm state\<rparr>"

definition counterReducer_ref :: "CounterState option \<Rightarrow> action \<Rightarrow> CounterState reference" where
  "counterReducer_ref st action =
     (let state = (case st of None \<Rightarrow> initialState_counter | Some s \<Rightarrow> s) in
      case action of
        IncrementAction \<Rightarrow>
          Fresh (state\<lparr>value' := value' state + 1, lastAction := ''increment''\<rparr>)
      | DecrementAction \<Rightarrow>
          Fresh (state\<lparr>value' := value' state - 1, lastAction := ''decrement''\<rparr>)
      | IncrementByAmountAction n \<Rightarrow>
          Fresh (state\<lparr>value' := value' state + n,
                       lastAction := ''increment by '' @ number_toString n\<rparr>)
      | ResetAction \<Rightarrow>
          Fresh (state\<lparr>value' := 0, lastAction := ''reset''\<rparr>)
      | _ \<Rightarrow> Same)"

definition todoReducer_ref ::
  "LoadEnv \<Rightarrow> Env \<Rightarrow> TodoState option \<Rightarrow> action \<Rightarrow> TodoStateObject reference" where
  "todoReducer_ref ld env st action =
     (let state = (case st of None \<Rightarrow> initialState_todo ld | Some s \<Rightarrow> s) in
      case action of
        AddTodoAction txt \<Rightarrow>
          Fresh ((spread state)\<lparr>todos_ref := Fresh
            (New \<lparr>id' = generateId env, text' = txt, completed = False,
                  createdAt = dateNow_createdAt env\<rparr>
             # map Old [0..<length (todos state)])\<rparr>)
      | ToggleTodoAction i \<Rightarrow>
          Fresh ((spread state)\<lparr>todos_ref := Fresh
            (map (\<lambda>(k, todo).
                    if id' todo = i then New (todo\<lparr>completed := \<not> completed todo\<rparr>) else Old k)
               (enumerate 0 (todos state)))\<rparr>)
      | DeleteTodoAction i \<Rightarrow>
          Fresh ((spread state)\<lparr>todos_ref := Fresh
            (map (\<lambda>(k, todo). Old k)
               (filter (\<lambda>(k, todo). id' todo \<noteq> i) (enumerate 0 (todos state))))\<rparr>)
      | EditTodoAction i txt \<Rightarrow>
          Fresh ((spread state)\<lparr>todos_ref := Fresh
            (map (\<lambda>(k, todo). if id' todo = i then New (todo\<lparr>text' := txt\<rparr>) else Old k)
               (enumerate 0 (todos state)))\<rparr>)
      | ClearCompletedAction \<Rightarrow>
          Fresh ((spread state)\<lparr>todos_ref := Fresh
            (map (\<lambda>(k, todo). Old k)
               (filter (\<lambda>(k, todo). \<not> completed todo) (enumerate 0 (todos state))))\<rparr>)
      | SetFilterAction f \<Rightarrow>
          Fresh ((spread state)\<lparr>filter_val := f\<rparr>)
      | SetSearchTermAction s \<Rightarrow>
          Fresh ((spread state)\<lparr>searchTerm_val := s\<rparr>)
      | MarkAllCompleteAction \<Rightarrow>
          (let allCompleted = list_all (\<lambda>todo. completed todo) (todos state) in
           Fresh ((spread state)\<lparr>todos_ref := Fresh
             (map (\<lambda>todo. New (todo\<lparr>completed := \<not> allCompleted\<rparr>)) (todos state))\<rparr>))
      | _ \<Rightarrow> Same)"

text \<open>What a reference of a result points to, given the state the reducer received.\<close>

definition deref_counter :: "CounterState \<Rightarrow> CounterState reference \<Rightarrow> CounterState" where
  "deref_counter state r = (case r of Same \<Rightarrow> state | Fresh s \<Rightarrow> s)"

definition deref_todo :: "Todo list \<Rightarrow> todoRef \<Rightarrow> Todo" where
  "deref_todo old r = (case r of Old k \<Rightarrow> old ! k | New todo \<Rightarrow> todo)"

definition deref_todoState :: "TodoState \<Rightarrow> TodoStateObject reference \<Rightarrow> TodoState" where
  "deref_todoState state r =
     (case r of
        Same \<Rightarrow> state
      | Fresh obj \<Rightarrow>
          \<lparr>todos = (case todos_ref obj of
                      Same \<Rightarrow> todos state
                    | Fresh rs \<Rightarrow> map (deref_todo (todos state)) rs),
           filter' = filter_val obj,
           searchTerm = searchTerm_val obj\<rparr>)"

text \<open>An index \<open>Old k\<close> of a result points into the array the reducer received.\<close>

definition inRange :: "nat \<Rightarrow> todoRef \<Rightarrow> bool" where
  "inRange n r = (case r of Old k \<Rightarrow> k < n | New todo \<Rightarrow> True)"

section \<open>Notions of the specification\<close>







text \<open>No two entries of the list have the same id.\<close>

definition uniqueIds :: "TodoState \<Rightarrow> bool" where
  "uniqueIds s = distinct (map id' (todos s))"


definition todoDispatch :: "LoadEnv \<Rightarrow> TodoState \<Rightarrow> (Env \<times> action) list \<Rightarrow> TodoState" where
  "todoDispatch ld s eas = foldl (\<lambda>state (env, a). todoReducer ld env (Some state) a) s eas"

section \<open>A sample environment\<close>

text \<open>Readings of the clock and of the random source, for closed instances of the theorems.\<close>

definition sampleLoadEnv :: LoadEnv where
  "sampleLoadEnv =
     \<lparr>dateNow_1 = 1700000000000, dateNow_2 = 1700000000000, dateNow_3 = 1700000000001\<rparr>"

definition sampleEnv :: Env where
  "sampleEnv =
     \<lparr>dateNow_id = 1700000000123, mathRandom_toString36 = ''0.4fzyo82mvyr'',
      dateNow_createdAt = 1700000000123\<rparr>"

text \<open>
  A second call in the same millisecond, whose random number differs from the first
  call's in its tenth digit.
\<close>

definition sampleEnv2 :: Env where
  "sampleEnv2 =
     \<lparr>dateNow_id = 1700000000123, mathRandom_toString36 = ''0.4fzyo82mvzz'',
      dateNow_createdAt = 1700000000123\<rparr>"



section \<open>Equations of the reducers, one per case\<close>

lemmas actionType_defs =
  counterTypes_def todoTypes_def INCREMENT_def DECREMENT_def INCREMENT_BY_AMOUNT_def
  RESET_def ADD_TODO_def TOGGLE_TODO_def DELETE_TODO_def EDIT_TODO_def CLEAR_COMPLETED_def
  SET_FILTER_def SET_SEARCH_TERM_def MARK_ALL_COMPLETE_def



lemma todoReducer_addTodo:
  "todoReducer ld env (Some s) (addTodo txt) =
     s\<lparr>todos := \<lparr>id' = generateId env, text' = txt, completed = False,
                  createdAt = dateNow_createdAt env\<rparr> # todos s\<rparr>"
  by (simp add: todoReducer_def addTodo_def)

lemma todoReducer_toggleTodo:
  "todoReducer ld env (Some s) (toggleTodo i) =
     s\<lparr>todos := map (\<lambda>todo. if id' todo = i then todo\<lparr>completed := \<not> completed todo\<rparr> else todo)
                  (todos s)\<rparr>"
  by (simp add: todoReducer_def toggleTodo_def)

lemma todoReducer_deleteTodo:
  "todoReducer ld env (Some s) (deleteTodo i) =
     s\<lparr>todos := filter (\<lambda>todo. id' todo \<noteq> i) (todos s)\<rparr>"
  by (simp add: todoReducer_def deleteTodo_def)

lemma todoReducer_editTodo:
  "todoReducer ld env (Some s) (editTodo i txt) =
     s\<lparr>todos := map (\<lambda>todo. if id' todo = i then todo\<lparr>text' := txt\<rparr> else todo) (todos s)\<rparr>"
  by (simp add: todoReducer_def editTodo_def)

lemma todoReducer_markAllComplete:
  "todoReducer ld env (Some s) markAllComplete =
     s\<lparr>todos := map (\<lambda>todo. todo\<lparr>completed := \<not> list_all completed (todos s)\<rparr>) (todos s)\<rparr>"
  by (simp add: todoReducer_def markAllComplete_def)

lemma map_no_match:
  "i \<notin> set (map id' ts) \<Longrightarrow> map (\<lambda>todo. if id' todo = i then f todo else todo) ts = ts"
  by (induction ts) auto

lemma filter_no_match:
  "i \<notin> set (map id' ts) \<Longrightarrow> filter (\<lambda>todo. id' todo \<noteq> i) ts = ts"
  by (induction ts) auto

section \<open>The reducers by reference and by value agree\<close>

lemma deref_map_enumerate:
  "map (deref_todo xs) (map (\<lambda>(k, todo). if p todo then New (f todo) else Old k) (enumerate 0 xs))
   = map (\<lambda>todo. if p todo then f todo else todo) xs"
  by (rule nth_equalityI) (simp_all add: nth_enumerate_eq deref_todo_def)

lemma map_snd_filter:
  "map snd (filter (\<lambda>(k, x). p x) zs) = filter p (map snd zs)"
  by (induction zs) auto

lemma deref_filter_enumerate:
  "map (deref_todo xs) (map (\<lambda>(k, todo). Old k) (filter (\<lambda>(k, todo). p todo) (enumerate 0 xs)))
   = filter p xs"
proof -
  have "map (deref_todo xs) (map (\<lambda>(k, todo). Old k) (filter (\<lambda>(k, todo). p todo) (enumerate 0 xs)))
      = map snd (filter (\<lambda>(k, todo). p todo) (enumerate 0 xs))"
    by (auto simp add: deref_todo_def in_set_enumerate_eq)
  also have "\<dots> = filter p (map snd (enumerate 0 xs))"
    by (rule map_snd_filter)
  finally show ?thesis by simp
qed

lemma deref_todo_New: "map (deref_todo xs) (map (\<lambda>todo. New (f todo)) ys) = map f ys"
  by (simp add: deref_todo_def)

lemma deref_todo_simps: "deref_todo xs (New t) = t" "deref_todo xs (Old k) = xs ! k"
  by (simp_all add: deref_todo_def)

lemma deref_map_Old: "map (deref_todo xs) (map Old [0..<length xs]) = xs"
  by (rule nth_equalityI) (simp_all add: deref_todo_def)

lemma counterReducer_ref_agrees:
  "deref_counter (case st of None \<Rightarrow> initialState_counter | Some s \<Rightarrow> s)
     (counterReducer_ref st a) = counterReducer st a"
  by (cases a)
    (simp_all add: counterReducer_ref_def counterReducer_def deref_counter_def Let_def)

lemma todoReducer_ref_agrees:
  "deref_todoState (case st of None \<Rightarrow> initialState_todo ld | Some s \<Rightarrow> s)
     (todoReducer_ref ld env st a) = todoReducer ld env st a"
  by (cases a)
    (simp_all add: todoReducer_ref_def todoReducer_def deref_todoState_def Let_def spread_def
      deref_map_enumerate deref_filter_enumerate deref_map_Old deref_todo_New deref_todo_simps
      del: map_map)

lemma todoReducer_ref_in_range:
  assumes "todoReducer_ref ld env (Some s) a = Fresh obj" and "todos_ref obj = Fresh rs"
  shows "list_all (inRange (length (todos s))) rs"
  using assms
  by (cases a)
    (auto simp add: todoReducer_ref_def spread_def Let_def list_all_iff inRange_def
      in_set_enumerate_eq)

lemma enumerate_no_match:
  "i \<notin> set (map id' ts) \<Longrightarrow>
   map (\<lambda>(k, todo). if id' todo = i then New (f todo) else Old k) (enumerate 0 ts) = map Old [0..<length ts]"
  by (rule nth_equalityI) (auto simp add: nth_enumerate_eq)

lemma enumerate_filter_no_match:
  "i \<notin> set (map id' ts) \<Longrightarrow>
   map (\<lambda>(k, todo). Old k) (filter (\<lambda>(k, todo). id' todo \<noteq> i) (enumerate 0 ts)) = map Old [0..<length ts]"
proof -
  assume a: "i \<notin> set (map id' ts)"
  have "filter (\<lambda>(k, todo). id' todo \<noteq> i) (enumerate 0 ts) = enumerate 0 ts"
    using a by (auto simp add: filter_id_conv in_set_enumerate_eq)
  moreover have "map (\<lambda>(k, todo). Old k) (enumerate 0 ts) = map Old [0..<length ts]"
    by (rule nth_equalityI) (simp_all add: nth_enumerate_eq)
  ultimately show ?thesis by simp
qed

section \<open>Double-precision rounding\<close>


lemma floorLog2_gt:
  assumes "0 < x"
  shows "x < 2 powi (floorLog2 x + 1)"
proof (cases "1 \<le> x")
  case True
  define m where "m = nat \<lfloor>x\<rfloor>"
  have m: "0 < m" using True by (simp add: m_def)
  then have fl: "1 \<le> floorlog 2 m"
    by (simp add: floorlog_def)
  have "m < 2 ^ floorlog 2 m"
    using floorlog_bounds [of m 2] m by simp
  then have "int m < 2 ^ floorlog 2 m"
    by (metis of_nat_less_iff of_nat_numeral of_nat_power)
  then have "\<lfloor>x\<rfloor> + 1 \<le> 2 ^ floorlog 2 m"
    using True by (simp add: m_def)
  then have "(of_int (\<lfloor>x\<rfloor> + 1) :: rat) \<le> of_int (2 ^ floorlog 2 m)"
    by (simp only: of_int_le_iff)
  moreover have "x < of_int (\<lfloor>x\<rfloor> + 1)" by linarith
  ultimately have "x < 2 ^ floorlog 2 m" by simp
  moreover have "floorLog2 x + 1 = int (floorlog 2 m)"
    using True fl by (simp add: floorLog2_def m_def)
  ultimately show ?thesis by simp
next
  case False
  define y where "y = 1 / x"
  have y: "1 < y" using False assms by (simp add: y_def)
  define M where "M = nat (\<lceil>y\<rceil> - 1)"
  have cy: "2 \<le> \<lceil>y\<rceil>" using y by linarith
  then have M: "0 < M" by (simp add: M_def)
  then have fl: "1 \<le> floorlog 2 M"
    by (simp add: floorlog_def)
  have "2 ^ (floorlog 2 M - 1) \<le> M"
    using floorlog_bounds [of M 2] M by simp
  then have "(2::int) ^ (floorlog 2 M - 1) \<le> int M"
    by (metis of_nat_le_iff of_nat_numeral of_nat_power)
  then have "(2::int) ^ (floorlog 2 M - 1) \<le> \<lceil>y\<rceil> - 1"
    using cy by (simp add: M_def)
  then have "(of_int (2 ^ (floorlog 2 M - 1)) :: rat) \<le> of_int (\<lceil>y\<rceil> - 1)"
    by (simp only: of_int_le_iff)
  moreover have "of_int (\<lceil>y\<rceil> - 1) < y" by linarith
  ultimately have "2 ^ (floorlog 2 M - 1) < y" by simp
  then have "x < 1 / 2 ^ (floorlog 2 M - 1)"
    using assms by (simp add: y_def field_simps)
  moreover have "floorLog2 x + 1 = - int (floorlog 2 M - 1)"
    using False fl by (simp add: floorLog2_def M_def y_def)
  ultimately show ?thesis
    by (simp add: power_int_minus field_simps)
qed








section \<open>Case-insensitive search\<close>











section \<open>Distinct ids\<close>

lemma map_id_update:
  assumes "\<And>t. id' (g t) = id' t"
  shows "map id' (map (\<lambda>todo. if p todo then g todo else todo) ts) = map id' ts"
    and "map id' (map g ts) = map id' ts"
  using assms by (induction ts) auto

lemma uniqueIds_kept_by_other_actions:
  assumes "uniqueIds s" and "action_type a \<noteq> ADD_TODO"
  shows "uniqueIds (todoReducer ld env (Some s) a)"
  using assms
  by (cases a)
    (simp_all add: todoReducer_def uniqueIds_def map_id_update distinct_map_filter
      del: map_map)

lemma uniqueIds_addTodo:
  "uniqueIds (todoReducer ld env (Some s) (addTodo txt)) \<longleftrightarrow>
     uniqueIds s \<and> generateId env \<notin> set (map id' (todos s))"
  by (auto simp add: todoReducer_addTodo uniqueIds_def)

section \<open>The claims\<close>

text \<open>
  C1. \<open>markAllComplete\<close> first computes whether every task is completed. If so, it sets
  every \<open>completed\<close> flag to false, otherwise to true; nothing else of the state changes.
  Applied to a list that is not all completed it completes every task, and applied once
  more right after (the list is then not empty and all completed) it sets every flag to
  false.
\<close>

theorem markAllComplete_toggles_all:
  "todoReducer ld env (Some s) markAllComplete =
     s\<lparr>todos := map (\<lambda>todo. todo\<lparr>completed := \<not> list_all completed (todos s)\<rparr>) (todos s)\<rparr>
   \<and> (list_all completed (todos s) \<longrightarrow>
        list_all (\<lambda>todo. \<not> completed todo) (todos (todoReducer ld env (Some s) markAllComplete)))
   \<and> (\<not> list_all completed (todos s) \<longrightarrow>
        list_all completed (todos (todoReducer ld env (Some s) markAllComplete))
        \<and> todos s \<noteq> []
        \<and> list_all (\<lambda>todo. \<not> completed todo)
            (todos (todoReducer ld env2 (Some (todoReducer ld env (Some s) markAllComplete))
               markAllComplete)))"
proof (intro conjI impI)
  show "todoReducer ld env (Some s) markAllComplete =
     s\<lparr>todos := map (\<lambda>todo. todo\<lparr>completed := \<not> list_all completed (todos s)\<rparr>) (todos s)\<rparr>"
    by (rule todoReducer_markAllComplete)
next
  assume "list_all completed (todos s)"
  then show "list_all (\<lambda>todo. \<not> completed todo)
      (todos (todoReducer ld env (Some s) markAllComplete))"
    by (simp add: todoReducer_markAllComplete list_all_iff)
next
  assume "\<not> list_all completed (todos s)"
  then show "list_all completed (todos (todoReducer ld env (Some s) markAllComplete))"
    by (simp add: todoReducer_markAllComplete list_all_iff)
next
  assume "\<not> list_all completed (todos s)"
  then show "todos s \<noteq> []"
    by auto
next
  assume "\<not> list_all completed (todos s)"
  then show "list_all (\<lambda>todo. \<not> completed todo)
      (todos (todoReducer ld env2 (Some (todoReducer ld env (Some s) markAllComplete))
         markAllComplete))"
    by (cases "todos s") (simp_all add: todoReducer_markAllComplete list_all_iff)
qed

theorem markAllComplete_toggles_all_witness:
  "\<not> list_all completed (todos (initialState_todo sampleLoadEnv))
   \<and> list_all completed
       (todos (todoReducer sampleLoadEnv sampleEnv (Some (initialState_todo sampleLoadEnv))
          markAllComplete))
   \<and> list_all (\<lambda>todo. \<not> completed todo)
       (todos (todoReducer sampleLoadEnv sampleEnv
          (Some (todoReducer sampleLoadEnv sampleEnv (Some (initialState_todo sampleLoadEnv))
             markAllComplete))
          markAllComplete))"
proof -
  have h: "\<not> list_all completed (todos (initialState_todo sampleLoadEnv))"
    by (simp add: initialState_todo_def)
  show ?thesis
    using h markAllComplete_toggles_all
      [of sampleLoadEnv sampleEnv "initialState_todo sampleLoadEnv" sampleEnv]
    by blast
qed



text \<open>
  C3. The claim is that no two entries of the list have the same id, in every state
  reached from the initial state. The reducer keeps the ids distinct under every
  operation other than \<open>addTodo\<close> (\<open>uniqueIds_kept_by_other_actions\<close>), and under
  \<open>addTodo\<close> exactly when the generated id is not in the list (\<open>uniqueIds_addTodo\<close>). That
  id is the clock's reading followed by the first nine digits of the random number, and
  nothing compares it with the ids in the list: two \<open>addTodo\<close> operations in the same
  millisecond whose random numbers agree in their first nine digits put one id into the
  list twice. The ids of the initial state are distinct; the ids of the state the two
  operations below lead to are not.
\<close>

theorem generateId_collision:
  "uniqueIds (initialState_todo sampleLoadEnv)
   \<and> mathRandom_toString36 sampleEnv \<noteq> mathRandom_toString36 sampleEnv2
   \<and> generateId sampleEnv = ''17000000001234fzyo82mv''
   \<and> generateId sampleEnv2 = ''17000000001234fzyo82mv''
   \<and> \<not> uniqueIds
       (todoDispatch sampleLoadEnv (initialState_todo sampleLoadEnv)
          [(sampleEnv, addTodo ''Buy milk''), (sampleEnv2, addTodo ''Buy bread'')])"
proof -
  have g: "generateId sampleEnv = ''17000000001234fzyo82mv''"
    by (simp add: generateId_def sampleEnv_def number_toString_def substr_def digit_char_def)
  have g2: "generateId sampleEnv2 = ''17000000001234fzyo82mv''"
    by (simp add: generateId_def sampleEnv2_def number_toString_def substr_def digit_char_def)
  have d: "mathRandom_toString36 sampleEnv \<noteq> mathRandom_toString36 sampleEnv2"
    by (simp add: sampleEnv_def sampleEnv2_def)
  have u: "uniqueIds (initialState_todo sampleLoadEnv)"
    by (simp add: uniqueIds_def initialState_todo_def)
  have "\<not> uniqueIds
       (todoDispatch sampleLoadEnv (initialState_todo sampleLoadEnv)
          [(sampleEnv, addTodo ''Buy milk''), (sampleEnv2, addTodo ''Buy bread'')])"
    by (simp add: todoDispatch_def todoReducer_addTodo uniqueIds_def g g2)
  then show ?thesis using g g2 d u by simp
qed

text \<open>
  C4. An operation whose tag is none of a slice's own is answered by that slice's reducer
  with the state it was given: the reducer returns the reference it received, and so the
  same value. This holds for the counter reducer and for the todo reducer.
\<close>

theorem unrecognized_action_returns_same_state:
  "(action_type a \<notin> set counterTypes \<longrightarrow>
      counterReducer_ref (Some cs) a = Same \<and> counterReducer (Some cs) a = cs)
   \<and> (action_type a \<notin> set todoTypes \<longrightarrow>
        todoReducer_ref ld env (Some ts) a = Same \<and> todoReducer ld env (Some ts) a = ts)"
  by (cases a)
    (simp_all add: counterReducer_ref_def counterReducer_def todoReducer_ref_def
      todoReducer_def counterTypes_def todoTypes_def)

theorem unrecognized_action_returns_same_state_witness:
  "action_type (OtherAction (OtherType ''@@redux/INIT'')) \<notin> set counterTypes
   \<and> action_type (OtherAction (OtherType ''@@redux/INIT'')) \<notin> set todoTypes
   \<and> counterReducer_ref (Some initialState_counter) (OtherAction (OtherType ''@@redux/INIT''))
       = Same
   \<and> counterReducer (Some initialState_counter) (OtherAction (OtherType ''@@redux/INIT''))
       = initialState_counter
   \<and> todoReducer_ref sampleLoadEnv sampleEnv (Some (initialState_todo sampleLoadEnv))
        (OtherAction (OtherType ''@@redux/INIT'')) = Same
   \<and> todoReducer sampleLoadEnv sampleEnv (Some (initialState_todo sampleLoadEnv))
        (OtherAction (OtherType ''@@redux/INIT'')) = initialState_todo sampleLoadEnv"
proof -
  have t: "otherType_string (OtherType ''@@redux/INIT'') = ''@@redux/INIT''"
    by (rule OtherType_inverse) (simp add: actionType_defs)
  have h1: "action_type (OtherAction (OtherType ''@@redux/INIT'')) \<notin> set counterTypes"
    by (simp add: t actionType_defs)
  have h2: "action_type (OtherAction (OtherType ''@@redux/INIT'')) \<notin> set todoTypes"
    by (simp add: t actionType_defs)
  show ?thesis
    using h1 h2
      unrecognized_action_returns_same_state
        [where a = "OtherAction (OtherType ''@@redux/INIT'')" and cs = initialState_counter
          and ts = "initialState_todo sampleLoadEnv" and ld = sampleLoadEnv
          and env = sampleEnv]
    by blast
qed



text \<open>
  C6. Toggling the same id twice gives every task its original \<open>completed\<close> value back,
  and neither application changes the text or the id of any task.
\<close>

theorem toggleTodo_twice_restores_completed:
  "map completed
     (todos (todoReducer ld env2 (Some (todoReducer ld env (Some s) (toggleTodo i)))
        (toggleTodo i))) = map completed (todos s)
   \<and> map text' (todos (todoReducer ld env (Some s) (toggleTodo i))) = map text' (todos s)
   \<and> map id' (todos (todoReducer ld env (Some s) (toggleTodo i))) = map id' (todos s)
   \<and> map text'
       (todos (todoReducer ld env2 (Some (todoReducer ld env (Some s) (toggleTodo i)))
          (toggleTodo i))) = map text' (todos s)
   \<and> map id'
       (todos (todoReducer ld env2 (Some (todoReducer ld env (Some s) (toggleTodo i)))
          (toggleTodo i))) = map id' (todos s)"
  by (simp add: todoReducer_toggleTodo o_def)

text \<open>
  C7. When no task of the list has the given id, \<open>toggleTodo\<close>, \<open>deleteTodo\<close> and
  \<open>editTodo\<close> leave the list identical element by element: the array of the result holds,
  at every position, the reference the old array held there, and so the same records.
\<close>

theorem unknown_id_leaves_list_identical:
  assumes "i \<notin> set (map id' (todos s))"
  shows "todoReducer_ref ld env (Some s) (toggleTodo i) =
           Fresh ((spread s)\<lparr>todos_ref := Fresh (map Old [0..<length (todos s)])\<rparr>)
         \<and> todoReducer_ref ld env (Some s) (deleteTodo i) =
           Fresh ((spread s)\<lparr>todos_ref := Fresh (map Old [0..<length (todos s)])\<rparr>)
         \<and> todoReducer_ref ld env (Some s) (editTodo i txt) =
           Fresh ((spread s)\<lparr>todos_ref := Fresh (map Old [0..<length (todos s)])\<rparr>)
         \<and> todos (todoReducer ld env (Some s) (toggleTodo i)) = todos s
         \<and> todos (todoReducer ld env (Some s) (deleteTodo i)) = todos s
         \<and> todos (todoReducer ld env (Some s) (editTodo i txt)) = todos s"
  using assms
  by (simp add: todoReducer_ref_def toggleTodo_def deleteTodo_def editTodo_def
      enumerate_no_match enumerate_filter_no_match todoReducer_def map_no_match
      filter_no_match)

theorem unknown_id_leaves_list_identical_witness:
  "''42'' \<notin> set (map id' (todos (initialState_todo sampleLoadEnv)))
   \<and> todoReducer_ref sampleLoadEnv sampleEnv (Some (initialState_todo sampleLoadEnv))
       (toggleTodo ''42'') =
       Fresh ((spread (initialState_todo sampleLoadEnv))\<lparr>todos_ref := Fresh [Old 0, Old 1, Old 2]\<rparr>)
   \<and> todos (todoReducer sampleLoadEnv sampleEnv (Some (initialState_todo sampleLoadEnv))
       (deleteTodo ''42'')) = todos (initialState_todo sampleLoadEnv)"
proof -
  have h: "''42'' \<notin> set (map id' (todos (initialState_todo sampleLoadEnv)))"
    by (simp add: initialState_todo_def)
  have l: "map Old [0..<length (todos (initialState_todo sampleLoadEnv))] = [Old 0, Old 1, Old 2]"
    by (simp add: initialState_todo_def upt_rec)
  show ?thesis
    using h l
      unknown_id_leaves_list_identical
        [OF h, where ld = sampleLoadEnv and env = sampleEnv]
    by simp
qed




text \<open>
  C9. \<open>addTodo(text)\<close> yields a list one longer than before. Its element at index 0 is
  the new task: the given text, \<open>completed = false\<close>, the id \<open>generateId\<close> made and the
  reading of the clock as \<open>createdAt\<close>. The elements after it are the old list, the same
  records in the same order; the filter and the search term stay.
\<close>

theorem addTodo_prepends_new_task:
  "todos (todoReducer ld env (Some s) (addTodo txt)) =
     \<lparr>id' = generateId env, text' = txt, completed = False,
      createdAt = dateNow_createdAt env\<rparr> # todos s
   \<and> length (todos (todoReducer ld env (Some s) (addTodo txt))) = length (todos s) + 1
   \<and> text' (todos (todoReducer ld env (Some s) (addTodo txt)) ! 0) = txt
   \<and> completed (todos (todoReducer ld env (Some s) (addTodo txt)) ! 0) = False
   \<and> createdAt (todos (todoReducer ld env (Some s) (addTodo txt)) ! 0) = dateNow_createdAt env
   \<and> drop 1 (todos (todoReducer ld env (Some s) (addTodo txt))) = todos s
   \<and> filter' (todoReducer ld env (Some s) (addTodo txt)) = filter' s
   \<and> searchTerm (todoReducer ld env (Some s) (addTodo txt)) = searchTerm s
   \<and> todoReducer_ref ld env (Some s) (addTodo txt) =
       Fresh ((spread s)\<lparr>todos_ref := Fresh
         (New \<lparr>id' = generateId env, text' = txt, completed = False,
               createdAt = dateNow_createdAt env\<rparr>
          # map Old [0..<length (todos s)])\<rparr>)"
proof -
  have "todoReducer_ref ld env (Some s) (addTodo txt) =
       Fresh ((spread s)\<lparr>todos_ref := Fresh
         (New \<lparr>id' = generateId env, text' = txt, completed = False,
               createdAt = dateNow_createdAt env\<rparr>
          # map Old [0..<length (todos s)])\<rparr>)"
    by (simp add: todoReducer_ref_def addTodo_def)
  then show ?thesis
    by (simp add: todoReducer_addTodo)
qed



end
